theory Spec2Isabelle
  imports Main "HOL-Library.List_Lexorder" "HOL-Library.Char_ord" "HOL-Library.Multiset"
    "HOL-Library.Word"
begin

section \<open>Values shared by the three modules\<close>

text \<open>
  JSON values stand for Python's \<^verbatim>\<open>Any\<close> in the open-ended mappings
  (\<^verbatim>\<open>Dict[str, Any]\<close>); a mapping is an association list, an integer is
  unbounded as Python's is, a float is the 64 bits of its double. A string is the list of
  the bytes of the UTF-8 encoding of a Python \<^verbatim>\<open>str\<close>; a \<^verbatim>\<open>str\<close> that has
  no such encoding (a lone surrogate) is not a value here. Timestamps
  (\<^verbatim>\<open>datetime\<close>) are natural numbers: microseconds on the UTC clock.
\<close>

datatype json =
    JNull
  | JBool bool
  | JNum int
  | JFloat "64 word"
  | JStr string
  | JList "json list"
  | JDict "(string \<times> json) list"

type_synonym dict = "(string \<times> json) list"

type_synonym datetime = nat

datatype exn = Exception string

datatype HTTPException = HTTPException nat string

datatype level = INFO | WARNING | ERROR

section \<open>models.py\<close>

record DocumentModel =
  d_id :: string
  d_title :: string
  d_content :: string
  d_template_id :: "string option"
  d_created_at :: datetime
  d_updated_at :: datetime
  d_tags :: "string list"
  d_is_public :: bool
  d_metadata :: dict

record TemplateModel =
  t_id :: string
  t_name :: string
  t_description :: string
  t_content :: string
  t_category :: string
  t_preview_image :: "string option"
  t_created_at :: datetime
  t_is_builtin :: bool
  t_metadata :: dict

record ChatMessage =
  m_id :: string
  m_document_id :: string
  m_message :: string
  m_response :: string
  m_timestamp :: datetime
  m_context :: dict

record DocumentCreate =
  dc_title :: string
  dc_content :: string
  dc_template_id :: "string option"
  dc_tags :: "string list"

record DocumentUpdate =
  du_title :: "string option"
  du_content :: "string option"
  du_tags :: "string list option"
  du_metadata :: "dict option"

record ChatRequest =
  cr_document_id :: string
  cr_message :: string
  cr_context :: "dict option"

section \<open>The store and the environment of a call\<close>

text \<open>
  The dictionaries the seeder writes into the \<^verbatim>\<open>templates\<close> collection have
  exactly six keys; the documents and chat messages written are the \<^verbatim>\<open>.dict()\<close>
  of their models. A collection is the list of its records in insertion order.
\<close>

record template_dict =
  td_id :: string
  td_name :: string
  td_description :: string
  td_category :: string
  td_is_builtin :: bool
  td_content :: string

datatype index_spec = Index string string bool

record state =
  documents :: "DocumentModel list"
  templates :: "template_dict list"
  chat_messages :: "ChatMessage list"
  indexes :: "index_spec list"
  logged :: "(level \<times> string) list"

text \<open>
  What a call cannot decide by itself is given to it: whether its k-th round trip to the
  store raises (and with which message), the value \<^verbatim>\<open>uuid.uuid4()\<close> draws, what the
  k-th reading of \<^verbatim>\<open>datetime.utcnow()\<close> returns, and the text of the exception when
  the driver or the store refuses what the call hands it: a value BSON cannot hold, an
  argument out of range, a document id that a unique index has already. A lost
  connection and a time-out are round trips that raise.
\<close>

record env =
  store_raises :: "nat \<Rightarrow> string option"
  uuid4 :: string
  utcnow :: "nat \<Rightarrow> datetime"
  refusal :: string

definition log_to :: "level \<Rightarrow> string \<Rightarrow> state \<Rightarrow> state" where
  "log_to lv msg s = s\<lparr>logged := logged s @ [(lv, msg)]\<rparr>"

subsection \<open>What the store keeps of a value\<close>

text \<open>
  A BSON datetime counts milliseconds: of a \<^verbatim>\<open>datetime\<close> the store keeps the
  milliseconds and drops the rest.
\<close>

definition to_millis :: "datetime \<Rightarrow> datetime" where
  "to_millis t = (t div 1000) * 1000"

definition bson_document :: "DocumentModel \<Rightarrow> DocumentModel" where
  "bson_document d =
     d\<lparr>d_created_at := to_millis (d_created_at d), d_updated_at := to_millis (d_updated_at d)\<rparr>"

definition bson_chat_message :: "ChatMessage \<Rightarrow> ChatMessage" where
  "bson_chat_message m = m\<lparr>m_timestamp := to_millis (m_timestamp m)\<rparr>"

text \<open>
  The driver encodes a mapping before it sends it, and raises when it cannot: an integer
  must fit eight bytes, and a key must not hold the NUL character. Whether a key with a
  dollar sign or a dot is refused depends on the versions of the driver and of the store;
  it is left to the round trip.
\<close>

fun bson_ok :: "json \<Rightarrow> bool"
  and bson_ok_list :: "json list \<Rightarrow> bool"
  and bson_ok_dict :: "(string \<times> json) list \<Rightarrow> bool" where
  "bson_ok JNull = True"
| "bson_ok (JBool b) = True"
| "bson_ok (JNum n) = (- (2 ^ 63) \<le> n \<and> n < 2 ^ 63)"
| "bson_ok (JFloat x) = True"
| "bson_ok (JStr v) = True"
| "bson_ok (JList vs) = bson_ok_list vs"
| "bson_ok (JDict kvs) = bson_ok_dict kvs"
| "bson_ok_list [] = True"
| "bson_ok_list (v # vs) = (bson_ok v \<and> bson_ok_list vs)"
| "bson_ok_dict [] = True"
| "bson_ok_dict ((k, v) # kvs) = (CHR 0x00 \<notin> set k \<and> bson_ok v \<and> bson_ok_dict kvs)"

text \<open>
  \<^verbatim>\<open>create_indexes\<close> asks for a unique index on the \<^verbatim>\<open>id\<close> of the documents. Where
  that index exists, the store refuses a document whose id a stored document has.
\<close>

definition duplicate_key :: "state \<Rightarrow> string \<Rightarrow> bool" where
  "duplicate_key s document_id =
     (Index ''documents'' ''id'' True \<in> set (indexes s) \<and> document_id \<in> set (map d_id (documents s)))"

section \<open>database.py\<close>

definition index_statements :: "index_spec list" where
  "index_statements =
     [Index ''documents'' ''id'' True,
      Index ''documents'' ''created_at'' False,
      Index ''documents'' ''tags'' False,
      Index ''templates'' ''id'' True,
      Index ''templates'' ''category'' False,
      Index ''templates'' ''is_builtin'' False,
      Index ''chat_messages'' ''document_id'' False,
      Index ''chat_messages'' ''timestamp'' False]"

text \<open>Creating an index that exists already changes nothing.\<close>

definition create_index :: "index_spec \<Rightarrow> state \<Rightarrow> state" where
  "create_index ix s = (if ix \<in> set (indexes s) then s else s\<lparr>indexes := indexes s @ [ix]\<rparr>)"

text \<open>
  The body of the \<^verbatim>\<open>try\<close> block of \<^verbatim>\<open>create_indexes\<close>: the statements run
  in order, the k-th being the k-th round trip, and the first one that raises leaves the
  block with its message.
\<close>

fun try_create :: "env \<Rightarrow> nat \<Rightarrow> index_spec list \<Rightarrow> state \<Rightarrow> string option \<times> state" where
  "try_create e k [] s = (None, s)"
| "try_create e k (ix # rest) s =
     (case store_raises e k of
        Some msg \<Rightarrow> (Some msg, s)
      | None \<Rightarrow> try_create e (Suc k) rest (create_index ix s))"

definition create_indexes :: "env \<Rightarrow> state \<Rightarrow> (exn + unit) \<times> state" where
  "create_indexes e s =
     (case try_create e 0 index_statements s of
        (None, s') \<Rightarrow> (Inr (), log_to INFO ''Database indexes created successfully'' s')
      | (Some msg, s') \<Rightarrow> (Inr (), log_to WARNING (''Failed to create some indexes: '' @ msg) s'))"

section \<open>Python values the handlers compute\<close>

definition bs :: char where
  "bs = CHR 0x5C"

definition nl :: char where
  "nl = CHR 0x0A"

text \<open>A triple-quoted literal, given by its lines.\<close>

fun text_of_lines :: "string list \<Rightarrow> string" where
  "text_of_lines [] = []"
| "text_of_lines [l] = l"
| "text_of_lines (l # ls) = l @ nl # text_of_lines ls"

text \<open>\<^verbatim>\<open>str(n)\<close> of a non-negative integer, as the f-strings of the log format it.\<close>

fun str_nat :: "nat \<Rightarrow> string" where
  "str_nat n = (if n < 10 then [char_of (48 + n)] else str_nat (n div 10) @ [char_of (48 + n mod 10)])"

text \<open>
  \<^verbatim>\<open>repr\<close> of a string: in single quotes, unless the string holds a single quote and no
  double quote; the quote and the backslash are escaped, tab, newline and carriage return
  are written as escapes, other control characters in hexadecimal. Bytes from 128 on
  (UTF-8 of printable characters) are kept.
\<close>

definition hex_digit :: "nat \<Rightarrow> char" where
  "hex_digit n = (if n < 10 then char_of (48 + n) else char_of (87 + n))"

definition repr_char :: "char \<Rightarrow> char \<Rightarrow> string" where
  "repr_char q c =
     (if c = q \<or> c = bs then [bs, c]
      else if c = CHR 0x09 then [bs, CHR ''t'']
      else if c = nl then [bs, CHR ''n'']
      else if c = CHR 0x0D then [bs, CHR ''r'']
      else if of_char c < (32 :: nat) \<or> of_char c = (127 :: nat)
        then [bs, CHR ''x'', hex_digit (of_char c div 16), hex_digit (of_char c mod 16)]
      else [c])"

definition repr_str :: "string \<Rightarrow> string" where
  "repr_str s =
     (let q = (if CHR 0x27 \<in> set s \<and> CHR 0x22 \<notin> set s then CHR 0x22 else CHR 0x27)
      in q # concat (map (repr_char q) s) @ [q])"

fun join :: "string \<Rightarrow> string list \<Rightarrow> string" where
  "join sep [] = []"
| "join sep [x] = x"
| "join sep (x # xs) = x @ sep @ join sep xs"

section \<open>server.py\<close>

subsection \<open>The names of the module\<close>

text \<open>
  The names bound at the top level of \<^verbatim>\<open>server.py\<close>: by its \<^verbatim>\<open>import\<close>
  statements (lines 1 to 11, and line 468 when the file is run as a script), by the
  assignments to \<^verbatim>\<open>logger\<close> and \<^verbatim>\<open>app\<close>, and by its function definitions. A
  name a handler reads that is neither here nor a Python builtin raises
  \<^verbatim>\<open>NameError\<close>.
\<close>

definition server_globals :: "string list" where
  "server_globals =
     [''FastAPI'', ''HTTPException'', ''Depends'',
      ''CORSMiddleware'',
      ''JSONResponse'',
      ''asynccontextmanager'',
      ''os'',
      ''load_dotenv'',
      ''logging'',
      ''List'', ''Optional'',
      ''DocumentModel'', ''TemplateModel'', ''ChatMessage'', ''DocumentCreate'', ''DocumentUpdate'',
      ''ChatRequest'',
      ''connect_to_mongo'', ''close_mongo_connection'', ''get_collection'',
      ''logger'', ''lifespan'', ''app'',
      ''initialize_templates'', ''health_check'', ''create_document'', ''get_documents'',
      ''get_document'', ''update_document'', ''delete_document'', ''get_templates'',
      ''get_template'', ''chat_with_ai'', ''get_template_categories'',
      ''uvicorn'']"

subsection \<open>The built-in templates\<close>

definition template_article_content :: string where
  "template_article_content = text_of_lines
     [bs # ''documentclass[12pt]{article}'',
      bs # ''usepackage[utf8]{inputenc}'',
      bs # ''usepackage{amsmath}'',
      bs # ''usepackage{amsfonts}'',
      bs # ''usepackage{amssymb}'',
      bs # ''usepackage{geometry}'',
      bs # ''geometry{margin=1in}'',
      '''',
      bs # ''title{Your Title Here}'',
      bs # ''author{Your Name}'',
      bs # ''date{'' @ bs # ''today}'',
      '''',
      bs # ''begin{document}'',
      '''',
      bs # ''maketitle'',
      '''',
      bs # ''begin{abstract}'',
      ''Your abstract goes here. This should be a brief summary of your work.'',
      bs # ''end{abstract}'',
      '''',
      bs # ''section{Introduction}'',
      ''Your introduction content goes here.'',
      '''',
      bs # ''section{Methodology}'',
      ''Describe your methodology here.'',
      '''',
      bs # ''section{Results}'',
      ''Present your results here.'',
      '''',
      bs # ''section{Conclusion}'',
      ''Your conclusions go here.'',
      '''',
      bs # ''bibliographystyle{plain}'',
      bs # ''bibliography{references}'',
      '''',
      bs # ''end{document}'']"

definition template_report_content :: string where
  "template_report_content = text_of_lines
     [bs # ''documentclass[12pt]{report}'',
      bs # ''usepackage[utf8]{inputenc}'',
      bs # ''usepackage{geometry}'',
      bs # ''usepackage{graphicx}'',
      bs # ''usepackage{fancyhdr}'',
      bs # ''geometry{margin=1in}'',
      '''',
      bs # ''pagestyle{fancy}'',
      bs # ''fancyhf{}'',
      bs # ''rhead{'' @ bs # ''thepage}'',
      bs # ''lhead{Business Report}'',
      '''',
      bs # ''title{Business Report Title}'',
      bs # ''author{Company Name}'',
      bs # ''date{'' @ bs # ''today}'',
      '''',
      bs # ''begin{document}'',
      '''',
      bs # ''maketitle'',
      '''',
      bs # ''chapter{Executive Summary}'',
      ''Provide a high-level overview of the report findings and recommendations.'',
      '''',
      bs # ''chapter{Introduction}'',
      ''Introduce the purpose and scope of this report.'',
      '''',
      bs # ''chapter{Analysis}'',
      ''Present your detailed analysis here.'',
      '''',
      bs # ''chapter{Recommendations}'',
      ''Provide actionable recommendations based on your analysis.'',
      '''',
      bs # ''chapter{Conclusion}'',
      ''Summarize the key points and next steps.'',
      '''',
      bs # ''end{document}'']"

definition template_presentation_content :: string where
  "template_presentation_content = text_of_lines
     [bs # ''documentclass{beamer}'',
      bs # ''usetheme{Madrid}'',
      bs # ''usecolortheme{default}'',
      '''',
      bs # ''title{Your Presentation Title}'',
      bs # ''author{Your Name}'',
      bs # ''institute{Your Institution}'',
      bs # ''date{'' @ bs # ''today}'',
      '''',
      bs # ''begin{document}'',
      '''',
      bs # ''frame{'' @ bs # ''titlepage}'',
      '''',
      bs # ''begin{frame}'',
      bs # ''frametitle{Outline}'',
      bs # ''tableofcontents'',
      bs # ''end{frame}'',
      '''',
      bs # ''section{Introduction}'',
      bs # ''begin{frame}'',
      bs # ''frametitle{Introduction}'',
      bs # ''begin{itemize}'',
      ''    '' @ bs # ''item First point'',
      ''    '' @ bs # ''item Second point'',
      ''    '' @ bs # ''item Third point'',
      bs # ''end{itemize}'',
      bs # ''end{frame}'',
      '''',
      bs # ''section{Main Content}'',
      bs # ''begin{frame}'',
      bs # ''frametitle{Main Point}'',
      ''Your main content goes here.'',
      bs # ''end{frame}'',
      '''',
      bs # ''section{Conclusion}'',
      bs # ''begin{frame}'',
      bs # ''frametitle{Conclusion}'',
      bs # ''begin{itemize}'',
      ''    '' @ bs # ''item Summary point 1'',
      ''    '' @ bs # ''item Summary point 2'',
      ''    '' @ bs # ''item Thank you!'',
      bs # ''end{itemize}'',
      bs # ''end{frame}'',
      '''',
      bs # ''end{document}'']"

definition template_math_content :: string where
  "template_math_content = text_of_lines
     [bs # ''documentclass[12pt]{article}'',
      bs # ''usepackage[utf8]{inputenc}'',
      bs # ''usepackage{amsmath}'',
      bs # ''usepackage{amsthm}'',
      bs # ''usepackage{amssymb}'',
      bs # ''usepackage{geometry}'',
      bs # ''geometry{margin=1in}'',
      '''',
      bs # ''newtheorem{theorem}{Theorem}'',
      bs # ''newtheorem{lemma}{Lemma}'',
      bs # ''newtheorem{corollary}{Corollary}'',
      bs # ''newtheorem{definition}{Definition}'',
      '''',
      bs # ''title{Mathematical Document}'',
      bs # ''author{Your Name}'',
      bs # ''date{'' @ bs # ''today}'',
      '''',
      bs # ''begin{document}'',
      '''',
      bs # ''maketitle'',
      '''',
      bs # ''section{Introduction}'',
      ''This document demonstrates mathematical typesetting in LaTeX.'',
      '''',
      bs # ''begin{definition}'',
      ''A function $f: '' @ bs # ''mathbb{R} '' @ bs # ''to '' @ bs # ''mathbb{R}$ is continuous at $x = a$ if...'',
      bs # ''end{definition}'',
      '''',
      bs # ''begin{theorem}'',
      ''For any continuous function $f$ on $[a,b]$, we have:'',
      bs # ''begin{equation}'',
      bs # ''int_a^b f(x) dx = F(b) - F(a)'',
      bs # ''end{equation}'',
      ''where $F$ is an antiderivative of $f$.'',
      bs # ''end{theorem}'',
      '''',
      bs # ''begin{proof}'',
      ''The proof follows from the Fundamental Theorem of Calculus...'',
      bs # ''end{proof}'',
      '''',
      bs # ''section{Examples}'',
      bs # ''begin{align}'',
      bs # ''frac{d}{dx}'' @ bs # ''left('' @ bs # ''sin(x)'' @ bs # ''right) &= '' @ bs # ''cos(x) '' @ bs # [bs],
      bs # ''frac{d}{dx}'' @ bs # ''left(e^x'' @ bs # ''right) &= e^x '' @ bs # [bs],
      bs # ''frac{d}{dx}'' @ bs # ''left('' @ bs # ''ln(x)'' @ bs # ''right) &= '' @ bs # ''frac{1}{x}'',
      bs # ''end{align}'',
      '''',
      bs # ''end{document}'']"

definition template_letter_content :: string where
  "template_letter_content = text_of_lines
     [bs # ''documentclass[12pt]{letter}'',
      bs # ''usepackage[utf8]{inputenc}'',
      bs # ''usepackage{geometry}'',
      bs # ''geometry{margin=1in}'',
      '''',
      bs # ''signature{Your Name}'',
      bs # ''address{Your Address '' @ bs # bs # '' City, State ZIP '' @ bs # bs # '' Email: your.email@example.com}'',
      '''',
      bs # ''begin{document}'',
      '''',
      bs # ''begin{letter}{Recipient Name '' @ bs # bs # '' Recipient Address '' @ bs # bs # '' City, State ZIP}'',
      '''',
      bs # ''opening{Dear [Recipient Name],}'',
      '''',
      ''This is the body of your letter. Write your message here with proper paragraphs and formatting.'',
      '''',
      ''Second paragraph continues your message with additional details or information you want to convey.'',
      '''',
      bs # ''closing{Sincerely,}'',
      '''',
      bs # ''end{letter}'',
      '''',
      bs # ''end{document}'']"

definition builtin_templates :: "template_dict list" where
  "builtin_templates =
     [\<lparr>td_id = ''template_article'',
       td_name = ''Academic Article'',
       td_description = ''Standard academic article format with abstract, sections, and bibliography'',
       td_category = ''academic'',
       td_is_builtin = True,
       td_content = template_article_content\<rparr>,
      \<lparr>td_id = ''template_report'',
       td_name = ''Business Report'',
       td_description = ''Professional business report template with executive summary'',
       td_category = ''business'',
       td_is_builtin = True,
       td_content = template_report_content\<rparr>,
      \<lparr>td_id = ''template_presentation'',
       td_name = ''Presentation Slides'',
       td_description = ''LaTeX Beamer presentation template'',
       td_category = ''presentation'',
       td_is_builtin = True,
       td_content = template_presentation_content\<rparr>,
      \<lparr>td_id = ''template_math'',
       td_name = ''Mathematical Document'',
       td_description = ''Template for mathematical proofs and theorems'',
       td_category = ''academic'',
       td_is_builtin = True,
       td_content = template_math_content\<rparr>,
      \<lparr>td_id = ''template_letter'',
       td_name = ''Formal Letter'',
       td_description = ''Professional letter template'',
       td_category = ''business'',
       td_is_builtin = True,
       td_content = template_letter_content\<rparr>]"

subsection \<open>initialize_templates\<close>

text \<open>
  The loop of lines 283 to 288: one \<^verbatim>\<open>insert_one\<close> per template, each in a
  \<^verbatim>\<open>try\<close> of its own. The k-th round trip of the call either appends the template
  to the collection or raises, and the handler of the exception only logs.
\<close>

fun insert_templates :: "env \<Rightarrow> nat \<Rightarrow> template_dict list \<Rightarrow> state \<Rightarrow> state" where
  "insert_templates e k [] s = s"
| "insert_templates e k (template # rest) s =
     insert_templates e (Suc k) rest
       (case store_raises e k of
          None \<Rightarrow>
            log_to INFO (''Inserted template: '' @ td_name template)
              (s\<lparr>templates := templates s @ [template]\<rparr>)
        | Some msg \<Rightarrow>
            log_to ERROR (''Failed to insert template '' @ td_name template @ '': '' @ msg) s)"

text \<open>
  Round trip 0 is \<^verbatim>\<open>count_documents\<close>, outside every \<^verbatim>\<open>try\<close>: when it raises,
  the exception leaves the function. Round trips 1 to 5 are the inserts.
\<close>

definition initialize_templates :: "env \<Rightarrow> state \<Rightarrow> (exn + unit) \<times> state" where
  "initialize_templates e s =
     (case store_raises e 0 of
        Some msg \<Rightarrow> (Inl (Exception msg), s)
      | None \<Rightarrow>
          (let existing_count = length (filter td_is_builtin (templates s))
           in if existing_count > 0
              then (Inr (),
                    log_to INFO (''Found '' @ str_nat existing_count @ '' existing built-in templates'') s)
              else (Inr (),
                    log_to INFO ''Built-in templates initialization completed''
                      (insert_templates e 1 builtin_templates s))))"

subsection \<open>Store operations on a collection\<close>

text \<open>
  \<^verbatim>\<open>find_one\<close> returns the first record that matches, \<^verbatim>\<open>update_one\<close> changes
  the first record that matches, \<^verbatim>\<open>delete_one\<close> removes it.
\<close>

definition find_one :: "('a \<Rightarrow> bool) \<Rightarrow> 'a list \<Rightarrow> 'a option" where
  "find_one p xs = List.find p xs"

fun update_one :: "('a \<Rightarrow> bool) \<Rightarrow> ('a \<Rightarrow> 'a) \<Rightarrow> 'a list \<Rightarrow> 'a list" where
  "update_one p f [] = []"
| "update_one p f (x # xs) = (if p x then f x # xs else x # update_one p f xs)"

fun delete_one :: "('a \<Rightarrow> bool) \<Rightarrow> 'a list \<Rightarrow> 'a list" where
  "delete_one p [] = []"
| "delete_one p (x # xs) = (if p x then xs else x # delete_one p xs)"

subsection \<open>Request parsing: the defaults of the request shapes\<close>

text \<open>A key the request body leaves out is \<^verbatim>\<open>None\<close> here and takes the default of models.py.\<close>

definition DocumentCreate_of ::
  "string \<Rightarrow> string option \<Rightarrow> string option \<Rightarrow> string list option \<Rightarrow> DocumentCreate" where
  "DocumentCreate_of title content template_id tags =
     \<lparr>dc_title = title,
      dc_content = (case content of None \<Rightarrow> [] | Some c \<Rightarrow> c),
      dc_template_id = template_id,
      dc_tags = (case tags of None \<Rightarrow> [] | Some ts \<Rightarrow> ts)\<rparr>"

subsection \<open>Document endpoints\<close>

definition health_check :: "(string \<times> string) list" where
  "health_check = [(''status'', ''healthy''), (''message'', ''Formal LaTeX Editor API is running'')]"

text \<open>
  \<^verbatim>\<open>DocumentModel(**document.dict())\<close> runs the default factories in the order of the
  fields: the id, then the two timestamps, each a reading of the clock of its own.
\<close>

definition DocumentModel_of :: "env \<Rightarrow> DocumentCreate \<Rightarrow> DocumentModel" where
  "DocumentModel_of e document =
     \<lparr>d_id = uuid4 e,
      d_title = dc_title document,
      d_content = dc_content document,
      d_template_id = dc_template_id document,
      d_created_at = utcnow e 0,
      d_updated_at = utcnow e 1,
      d_tags = dc_tags document,
      d_is_public = False,
      d_metadata = []\<rparr>"

definition create_document :: "env \<Rightarrow> DocumentCreate \<Rightarrow> state \<Rightarrow> (HTTPException + DocumentModel) \<times> state" where
  "create_document e document s =
     (let new_document = DocumentModel_of e document
      in case store_raises e 0 of
           Some msg \<Rightarrow>
             (Inl (HTTPException 500 ''Failed to create document''),
              log_to ERROR (''Error creating document: '' @ msg) s)
         | None \<Rightarrow>
             if duplicate_key s (d_id new_document)
             then (Inl (HTTPException 500 ''Failed to create document''),
                   log_to ERROR (''Error creating document: '' @ refusal e) s)
             else (Inr new_document, s\<lparr>documents := documents s @ [bson_document new_document]\<rparr>))"

text \<open>
  \<^verbatim>\<open>skip\<close> refuses a negative number and \<^verbatim>\<open>to_list\<close> a negative length, and the
  driver cannot encode a skip or a limit beyond eight bytes: each raises before any
  round trip. The store sorts before it skips and limits, in whatever order the cursor
  was built.
\<close>

definition get_documents :: "env \<Rightarrow> int \<Rightarrow> int \<Rightarrow> state \<Rightarrow> (HTTPException + DocumentModel list) \<times> state" where
  "get_documents e skip limit s =
     (if skip < 0 \<or> limit < 0 \<or> 2 ^ 63 \<le> skip \<or> 2 ^ 63 \<le> limit then
        (Inl (HTTPException 500 ''Failed to fetch documents''),
         log_to ERROR (''Error fetching documents: '' @ refusal e) s)
      else case store_raises e 0 of
          Some msg \<Rightarrow>
            (Inl (HTTPException 500 ''Failed to fetch documents''),
             log_to ERROR (''Error fetching documents: '' @ msg) s)
        | None \<Rightarrow>
            (Inr (take (nat limit) (drop (nat skip)
                (sort_key (\<lambda>d. - int (d_created_at d)) (documents s)))), s))"

definition get_document :: "env \<Rightarrow> string \<Rightarrow> state \<Rightarrow> (HTTPException + DocumentModel) \<times> state" where
  "get_document e document_id s =
     (case store_raises e 0 of
        Some msg \<Rightarrow>
          (Inl (HTTPException 500 ''Failed to fetch document''),
           log_to ERROR (''Error fetching document '' @ document_id @ '': '' @ msg) s)
      | None \<Rightarrow>
          (case find_one (\<lambda>d. d_id d = document_id) (documents s) of
             None \<Rightarrow> (Inl (HTTPException 404 ''Document not found''), s)
           | Some document \<Rightarrow> (Inr document, s)))"

text \<open>
  \<^verbatim>\<open>update_dict\<close> of lines 350 and 351, given the reading of the clock: the fields of
  the request that are not \<^verbatim>\<open>None\<close>, and \<^verbatim>\<open>updated_at\<close>; \<^verbatim>\<open>$set\<close> writes them.
\<close>

definition set_fields :: "DocumentUpdate \<Rightarrow> datetime \<Rightarrow> DocumentModel \<Rightarrow> DocumentModel" where
  "set_fields update_data now d =
     d\<lparr>d_title := (case du_title update_data of None \<Rightarrow> d_title d | Some v \<Rightarrow> v),
       d_content := (case du_content update_data of None \<Rightarrow> d_content d | Some v \<Rightarrow> v),
       d_tags := (case du_tags update_data of None \<Rightarrow> d_tags d | Some v \<Rightarrow> v),
       d_metadata := (case du_metadata update_data of None \<Rightarrow> d_metadata d | Some v \<Rightarrow> v),
       d_updated_at := now\<rparr>"

text \<open>
  Lines 353 to 363, reached once line 351 has read the clock: \<^verbatim>\<open>update_one\<close> is
  round trip 0 and the re-read \<^verbatim>\<open>find_one\<close> round trip 1. The driver encodes
  \<^verbatim>\<open>update_dict\<close> first, and the store keeps the new \<^verbatim>\<open>updated_at\<close> to the
  millisecond. A re-read that finds nothing makes \<^verbatim>\<open>DocumentModel(**None)\<close> raise
  \<^verbatim>\<open>TypeError\<close>.
\<close>

definition update_document_store ::
  "env \<Rightarrow> string \<Rightarrow> DocumentUpdate \<Rightarrow> datetime \<Rightarrow> state \<Rightarrow> (HTTPException + DocumentModel) \<times> state" where
  "update_document_store e document_id update_data now s =
     (if \<not> bson_ok_dict (case du_metadata update_data of None \<Rightarrow> [] | Some m \<Rightarrow> m) then
        (Inl (HTTPException 500 ''Failed to update document''),
         log_to ERROR (''Error updating document '' @ document_id @ '': '' @ refusal e) s)
      else case store_raises e 0 of
        Some msg \<Rightarrow>
          (Inl (HTTPException 500 ''Failed to update document''),
           log_to ERROR (''Error updating document '' @ document_id @ '': '' @ msg) s)
      | None \<Rightarrow>
          (case find_one (\<lambda>d. d_id d = document_id) (documents s) of
             None \<Rightarrow> (Inl (HTTPException 404 ''Document not found''), s)
           | Some _ \<Rightarrow>
               (let s' = s\<lparr>documents :=
                            update_one (\<lambda>d. d_id d = document_id)
                              (set_fields update_data (to_millis now)) (documents s)\<rparr>
                in case store_raises e 1 of
                     Some msg \<Rightarrow>
                       (Inl (HTTPException 500 ''Failed to update document''),
                        log_to ERROR (''Error updating document '' @ document_id @ '': '' @ msg) s')
                   | None \<Rightarrow>
                       (case find_one (\<lambda>d. d_id d = document_id) (documents s') of
                          None \<Rightarrow>
                            (Inl (HTTPException 500 ''Failed to update document''),
                             log_to ERROR (''Error updating document '' @ document_id @
                               '': DocumentModel() argument after ** must be a mapping, not NoneType'') s')
                        | Some updated_document \<Rightarrow> (Inr updated_document, s')))))"

text \<open>
  Line 351 reads the global name \<^verbatim>\<open>datetime\<close>. When the module does not bind it, the
  read raises \<^verbatim>\<open>NameError\<close> inside the \<^verbatim>\<open>try\<close>, before any round trip, and
  the clause \<^verbatim>\<open>except Exception\<close> turns it into the response 500.
\<close>

definition update_document :: "env \<Rightarrow> string \<Rightarrow> DocumentUpdate \<Rightarrow> state \<Rightarrow> (HTTPException + DocumentModel) \<times> state" where
  "update_document e document_id update_data s =
     (if ''datetime'' \<in> set server_globals
      then update_document_store e document_id update_data (utcnow e 0) s
      else (Inl (HTTPException 500 ''Failed to update document''),
            log_to ERROR (''Error updating document '' @ document_id @
              '': name 'datetime' is not defined'') s))"

definition delete_document :: "env \<Rightarrow> string \<Rightarrow> state \<Rightarrow> (HTTPException + (string \<times> string) list) \<times> state" where
  "delete_document e document_id s =
     (case store_raises e 0 of
        Some msg \<Rightarrow>
          (Inl (HTTPException 500 ''Failed to delete document''),
           log_to ERROR (''Error deleting document '' @ document_id @ '': '' @ msg) s)
      | None \<Rightarrow>
          (case find_one (\<lambda>d. d_id d = document_id) (documents s) of
             None \<Rightarrow> (Inl (HTTPException 404 ''Document not found''), s)
           | Some _ \<Rightarrow>
               (Inr [(''message'', ''Document deleted successfully'')],
                s\<lparr>documents := delete_one (\<lambda>d. d_id d = document_id) (documents s)\<rparr>)))"

subsection \<open>Template endpoints\<close>

text \<open>
  \<^verbatim>\<open>TemplateModel(**template)\<close> of a stored dictionary: the keys it lacks take their
  defaults, \<^verbatim>\<open>created_at\<close> a reading of the clock.
\<close>

definition TemplateModel_of :: "datetime \<Rightarrow> template_dict \<Rightarrow> TemplateModel" where
  "TemplateModel_of now template =
     \<lparr>t_id = td_id template,
      t_name = td_name template,
      t_description = td_description template,
      t_content = td_content template,
      t_category = td_category template,
      t_preview_image = None,
      t_created_at = now,
      t_is_builtin = td_is_builtin template,
      t_metadata = []\<rparr>"

text \<open>
  Lines 394 to 396: \<^verbatim>\<open>if category:\<close> is false for \<^verbatim>\<open>None\<close> and for the empty
  string, and the query then has no condition.
\<close>

definition template_query :: "string option \<Rightarrow> string option" where
  "template_query category =
     (case category of None \<Rightarrow> None | Some c \<Rightarrow> if c = [] then None else Some c)"

definition find_templates :: "string option \<Rightarrow> template_dict list \<Rightarrow> template_dict list" where
  "find_templates query ts =
     (case query of None \<Rightarrow> ts | Some c \<Rightarrow> filter (\<lambda>t. td_category t = c) ts)"

definition get_templates :: "env \<Rightarrow> string option \<Rightarrow> state \<Rightarrow> (HTTPException + TemplateModel list) \<times> state" where
  "get_templates e category s =
     (case store_raises e 0 of
        Some msg \<Rightarrow>
          (Inl (HTTPException 500 ''Failed to fetch templates''),
           log_to ERROR (''Error fetching templates: '' @ msg) s)
      | None \<Rightarrow>
          (let found = sort_key td_name (find_templates (template_query category) (templates s))
           in (Inr (map (\<lambda>(k, template). TemplateModel_of (utcnow e k) template) (enumerate 0 found)), s)))"

definition get_template :: "env \<Rightarrow> string \<Rightarrow> state \<Rightarrow> (HTTPException + TemplateModel) \<times> state" where
  "get_template e template_id s =
     (case store_raises e 0 of
        Some msg \<Rightarrow>
          (Inl (HTTPException 500 ''Failed to fetch template''),
           log_to ERROR (''Error fetching template '' @ template_id @ '': '' @ msg) s)
      | None \<Rightarrow>
          (case find_one (\<lambda>t. td_id t = template_id) (templates s) of
             None \<Rightarrow> (Inl (HTTPException 404 ''Template not found''), s)
           | Some template \<Rightarrow> (Inr (TemplateModel_of (utcnow e 0) template), s)))"

subsection \<open>Chat endpoint\<close>

record chat_response =
  message :: string
  suggestions :: "string list"

definition response :: chat_response where
  "response =
     \<lparr>message = ''AI integration coming soon! This is a placeholder response.'',
      suggestions =
        [''Try adding some mathematical equations with '' @ bs # ''begin{equation}'',
         ''Consider using '' @ bs # ''section{} to organize your content'',
         ''Use '' @ bs # ''textbf{} for bold text and '' @ bs # ''textit{} for italic text'']\<rparr>"

text \<open>\<^verbatim>\<open>str\<close> of the response dictionary: the \<^verbatim>\<open>repr\<close> of its two items.\<close>

definition str_response :: "chat_response \<Rightarrow> string" where
  "str_response r =
     ''{'' @ repr_str ''message'' @ '': '' @ repr_str (message r) @ '', '' @
     repr_str ''suggestions'' @ '': ['' @ join '', '' (map repr_str (suggestions r)) @ '']}''"

text \<open>
  \<^verbatim>\<open>chat_request.context or {}\<close>: a context that is \<^verbatim>\<open>None\<close> or empty gives the
  empty mapping.
\<close>

definition ChatMessage_of :: "env \<Rightarrow> ChatRequest \<Rightarrow> ChatMessage" where
  "ChatMessage_of e chat_request =
     \<lparr>m_id = uuid4 e,
      m_document_id = cr_document_id chat_request,
      m_message = cr_message chat_request,
      m_response = str_response response,
      m_timestamp = utcnow e 0,
      m_context = (case cr_context chat_request of None \<Rightarrow> [] | Some c \<Rightarrow> if c = [] then [] else c)\<rparr>"

text \<open>
  \<^verbatim>\<open>insert_one\<close> encodes the chat message, context included, before round trip 0: a
  context the driver cannot encode raises there, whatever the store would do, and the
  clause \<^verbatim>\<open>except Exception\<close> answers 500.
\<close>

definition chat_with_ai :: "env \<Rightarrow> ChatRequest \<Rightarrow> state \<Rightarrow> (HTTPException + chat_response) \<times> state" where
  "chat_with_ai e chat_request s =
     (let chat_message = ChatMessage_of e chat_request
      in if \<not> bson_ok_dict (m_context chat_message) then
           (Inl (HTTPException 500 ''Chat service temporarily unavailable''),
            log_to ERROR (''Error in chat: '' @ refusal e) s)
         else case store_raises e 0 of
           Some msg \<Rightarrow>
             (Inl (HTTPException 500 ''Chat service temporarily unavailable''),
              log_to ERROR (''Error in chat: '' @ msg) s)
         | None \<Rightarrow>
             (Inr response, s\<lparr>chat_messages := chat_messages s @ [bson_chat_message chat_message]\<rparr>))"

definition get_template_categories :: "(string \<times> string \<times> string) list" where
  "get_template_categories =
     [(''academic'', ''Academic'', ''Academic papers, theses, and research documents''),
      (''business'', ''Business'', ''Reports, letters, and business documents''),
      (''presentation'', ''Presentation'', ''Slides and presentation materials''),
      (''personal'', ''Personal'', ''Personal documents and notes'')]"

subsection \<open>The routes of the application\<close>

datatype request =
    GET_health
  | POST_documents DocumentCreate
  | GET_documents int int
  | GET_document string
  | PUT_document string DocumentUpdate
  | DELETE_document string
  | GET_templates "string option"
  | GET_template string
  | POST_chat ChatRequest
  | GET_categories

text \<open>The state the application is in once it has served a request.\<close>

fun serve :: "env \<Rightarrow> request \<Rightarrow> state \<Rightarrow> state" where
  "serve e GET_health s = s"
| "serve e (POST_documents document) s = snd (create_document e document s)"
| "serve e (GET_documents skip limit) s = snd (get_documents e skip limit s)"
| "serve e (GET_document document_id) s = snd (get_document e document_id s)"
| "serve e (PUT_document document_id update_data) s = snd (update_document e document_id update_data s)"
| "serve e (DELETE_document document_id) s = snd (delete_document e document_id s)"
| "serve e (GET_templates category) s = snd (get_templates e category s)"
| "serve e (GET_template template_id) s = snd (get_template e template_id s)"
| "serve e (POST_chat chat_request) s = snd (chat_with_ai e chat_request s)"
| "serve e GET_categories s = s"

section \<open>Concrete stores, environments and requests\<close>

definition empty_state :: state where
  "empty_state = \<lparr>documents = [], templates = [], chat_messages = [], indexes = [], logged = []\<rparr>"

definition calm :: env where
  "calm = \<lparr>store_raises = (\<lambda>k. None),
            uuid4 = ''0b9c3a52-7d1e-4f60-8a2b-5c6d7e8f9a10'',
            utcnow = (\<lambda>k. 1700000000123456 + 250 * k),
            refusal = ''refused''\<rparr>"

definition fails_first :: env where
  "fails_first = \<lparr>store_raises = (\<lambda>k. if k = 0 then Some ''timed out'' else None),
                   uuid4 = ''0b9c3a52-7d1e-4f60-8a2b-5c6d7e8f9a10'',
                   utcnow = (\<lambda>k. 1700000000123456 + 250 * k),
                   refusal = ''refused''\<rparr>"

definition other_uuid :: env where
  "other_uuid = \<lparr>store_raises = (\<lambda>k. None),
                  uuid4 = ''c41d7e08-2f9a-4b3c-9d65-0e1f2a3b4c5d'',
                  utcnow = (\<lambda>k. 1700000100123456 + 250 * k),
                  refusal = ''refused''\<rparr>"

definition fails_second_insert :: env where
  "fails_second_insert = \<lparr>store_raises = (\<lambda>k. if k = 2 then Some ''duplicate key'' else None),
                           uuid4 = ''0b9c3a52-7d1e-4f60-8a2b-5c6d7e8f9a10'',
                           utcnow = (\<lambda>k. 1700000000123456 + 250 * k),
                           refusal = ''refused''\<rparr>"

definition indexed :: state where
  "indexed =
     \<lparr>documents = [], templates = [], chat_messages = [], indexes = index_statements, logged = []\<rparr>"

definition large_number :: ChatRequest where
  "large_number =
     \<lparr>cr_document_id = ''doc-1'', cr_message = ''How do I typeset a matrix?'',
      cr_context = Some [(''cursor'', JNum (2 ^ 64))]\<rparr>"

definition stored_document :: DocumentModel where
  "stored_document =
     \<lparr>d_id = ''doc-1'', d_title = ''Old'', d_content = ''x = 1'', d_template_id = None,
      d_created_at = 1600000000, d_updated_at = 1600000000, d_tags = [''draft''],
      d_is_public = False, d_metadata = []\<rparr>"

definition one_document :: state where
  "one_document =
     \<lparr>documents = [stored_document], templates = [], chat_messages = [], indexes = [], logged = []\<rparr>"

definition title_New :: DocumentUpdate where
  "title_New = \<lparr>du_title = Some ''New'', du_content = None, du_tags = None, du_metadata = None\<rparr>"

definition make_public :: DocumentUpdate where
  "make_public = \<lparr>du_title = None, du_content = None, du_tags = None,
                  du_metadata = Some [(''is_public'', JBool True)]\<rparr>"

definition memo_template :: template_dict where
  "memo_template =
     \<lparr>td_id = ''memo'', td_name = ''Memo'', td_description = ''A short memo'',
      td_category = ''business'', td_is_builtin = False, td_content = ''Dear all''\<rparr>"

definition abstract_template :: template_dict where
  "abstract_template =
     \<lparr>td_id = ''abstract'', td_name = ''Abstract'', td_description = ''A one-page abstract'',
      td_category = ''academic'', td_is_builtin = False, td_content = ''We show''\<rparr>"

definition two_templates :: state where
  "two_templates =
     \<lparr>documents = [], templates = [memo_template, abstract_template], chat_messages = [],
      indexes = [], logged = []\<rparr>"

definition hello :: ChatRequest where
  "hello = \<lparr>cr_document_id = ''doc-1'', cr_message = ''How do I typeset a matrix?'', cr_context = None\<rparr>"

definition letter_stored :: state where
  "letter_stored =
     \<lparr>documents = [], templates = [last builtin_templates], chat_messages = [], indexes = [], logged = []\<rparr>"

section \<open>Properties of create_indexes\<close>

lemma try_create_all_ok:
  "(\<forall>j<length ixs. store_raises e (k + j) = None) \<Longrightarrow>
     try_create e k ixs s = (None, fold create_index ixs s)"
proof (induction ixs arbitrary: k s)
  case Nil
  then show ?case by simp
next
  case (Cons ix ixs)
  have "store_raises e k = None" using Cons.prems[rule_format, of 0] by simp
  moreover have "\<forall>j<length ixs. store_raises e (Suc k + j) = None"
    using Cons.prems by auto
  ultimately show ?case using Cons.IH[of "Suc k" "create_index ix s"] by simp
qed

lemma try_create_first_failure:
  "n < length ixs \<Longrightarrow> (\<forall>j<n. store_raises e (k + j) = None) \<Longrightarrow> store_raises e (k + n) = Some msg \<Longrightarrow>
     try_create e k ixs s = (Some msg, fold create_index (take n ixs) s)"
proof (induction ixs arbitrary: k n s)
  case Nil
  then show ?case by simp
next
  case (Cons ix ixs)
  show ?case
  proof (cases n)
    case 0
    then show ?thesis using Cons.prems by simp
  next
    case (Suc m)
    have h0: "store_raises e k = None" using Cons.prems(2)[rule_format, of 0] Suc by simp
    have h1: "\<forall>j<m. store_raises e (Suc k + j) = None"
      using Cons.prems(2) Suc by auto
    have h2: "store_raises e (Suc k + m) = Some msg" using Cons.prems(3) Suc by simp
    have h3: "m < length ixs" using Cons.prems(1) Suc by simp
    show ?thesis using Cons.IH[OF h3 h1 h2, of "create_index ix s"] h0 Suc by simp
  qed
qed

text \<open>
  C8, as the code has it. \<^verbatim>\<open>create_indexes\<close> never raises. When no statement raises,
  all eight indexes are created and the success is logged. When statement \<open>n\<close> is the
  first to raise, the indexes of the statements before it stay created, the failure is
  logged as a warning with its message, and nothing else has changed: the statements
  after \<open>n\<close> are not run.
\<close>

theorem create_indexes_best_effort:
  "fst (create_indexes e s) = Inr () \<and>
   ((\<forall>j<length index_statements. store_raises e j = None) \<longrightarrow>
      snd (create_indexes e s) =
        log_to INFO ''Database indexes created successfully'' (fold create_index index_statements s)) \<and>
   (\<forall>n msg. n < length index_statements \<and> (\<forall>j<n. store_raises e j = None) \<and> store_raises e n = Some msg \<longrightarrow>
      snd (create_indexes e s) =
        log_to WARNING (''Failed to create some indexes: '' @ msg) (fold create_index (take n index_statements) s))"
proof (intro conjI impI allI)
  show "fst (create_indexes e s) = Inr ()"
    by (simp add: create_indexes_def split: prod.split option.split)
next
  assume "\<forall>j<length index_statements. store_raises e j = None"
  then show "snd (create_indexes e s) =
        log_to INFO ''Database indexes created successfully'' (fold create_index index_statements s)"
    using try_create_all_ok[of index_statements e 0 s] by (simp add: create_indexes_def)
next
  fix n msg
  assume "n < length index_statements \<and> (\<forall>j<n. store_raises e j = None) \<and> store_raises e n = Some msg"
  then show "snd (create_indexes e s) =
        log_to WARNING (''Failed to create some indexes: '' @ msg) (fold create_index (take n index_statements) s)"
    using try_create_first_failure[of n index_statements e 0 msg s] by (simp add: create_indexes_def)
qed

theorem create_indexes_best_effort_witness:
  "list_all (\<lambda>j. store_raises calm j = None) [0..<length index_statements] \<and>
   indexes (snd (create_indexes calm empty_state)) = index_statements \<and>
   logged (snd (create_indexes calm empty_state)) = [(INFO, ''Database indexes created successfully'')] \<and>
   0 < length index_statements \<and> store_raises fails_first 0 = Some ''timed out'' \<and>
   fst (create_indexes fails_first empty_state) = Inr () \<and>
   snd (create_indexes fails_first empty_state) =
     empty_state\<lparr>logged := [(WARNING, ''Failed to create some indexes: timed out'')]\<rparr>"
proof -
  have c: "\<forall>j<length index_statements. store_raises calm j = None" by (simp add: calm_def)
  have "snd (create_indexes calm empty_state) =
      log_to INFO ''Database indexes created successfully'' (fold create_index index_statements empty_state)"
    using create_indexes_best_effort[of calm empty_state] c by blast
  moreover have "fold create_index index_statements empty_state = empty_state\<lparr>indexes := index_statements\<rparr>"
    by (simp add: index_statements_def create_index_def empty_state_def)
  ultimately have ok: "indexes (snd (create_indexes calm empty_state)) = index_statements \<and>
      logged (snd (create_indexes calm empty_state)) = [(INFO, ''Database indexes created successfully'')]"
    by (simp add: log_to_def empty_state_def)
  have h: "0 < length index_statements \<and> (\<forall>j<0. store_raises fails_first j = None) \<and>
      store_raises fails_first 0 = Some ''timed out''"
    by (simp add: fails_first_def index_statements_def)
  have "snd (create_indexes fails_first empty_state) =
      log_to WARNING (''Failed to create some indexes: '' @ ''timed out'')
        (fold create_index (take 0 index_statements) empty_state)"
    using create_indexes_best_effort[of fails_first empty_state] h by blast
  moreover have "fst (create_indexes fails_first empty_state) = Inr ()"
    using create_indexes_best_effort[of fails_first empty_state] by blast
  ultimately show ?thesis using ok h c by (simp add: log_to_def empty_state_def list_all_iff)
qed

text \<open>
  C8 as stated fails: in an environment where only the first statement raises, the second
  statement would succeed, yet its index is not there afterwards.
\<close>

theorem create_indexes_skips_rest:
  "store_raises fails_first 1 = None \<and>
   index_statements ! 1 \<notin> set (indexes (snd (create_indexes fails_first empty_state)))"
  by (simp add: fails_first_def empty_state_def create_indexes_def index_statements_def log_to_def)

section \<open>Properties of the seeder\<close>

lemma templates_log_to [simp]: "templates (log_to lv msg s) = templates s"
  and documents_log_to [simp]: "documents (log_to lv msg s) = documents s"
  and chat_messages_log_to [simp]: "chat_messages (log_to lv msg s) = chat_messages s"
  and indexes_log_to [simp]: "indexes (log_to lv msg s) = indexes s"
  and logged_log_to [simp]: "logged (log_to lv msg s) = logged s @ [(lv, msg)]"
  by (simp_all add: log_to_def)

lemma insert_templates_templates:
  "templates (insert_templates e k ts s) =
     templates s @ map snd (filter (\<lambda>(j, t). store_raises e j = None) (enumerate k ts))"
  by (induction ts arbitrary: k s) (auto split: option.splits)

lemma insert_templates_logged:
  "logged (insert_templates e k ts s) =
     logged s @ map (\<lambda>(j, t). case store_raises e j of
                        None \<Rightarrow> (INFO, ''Inserted template: '' @ td_name t)
                      | Some msg \<Rightarrow> (ERROR, ''Failed to insert template '' @ td_name t @ '': '' @ msg))
                (enumerate k ts)"
  by (induction ts arbitrary: k s) (auto split: option.splits)

lemma insert_templates_others:
  "documents (insert_templates e k ts s) = documents s \<and>
   chat_messages (insert_templates e k ts s) = chat_messages s \<and>
   indexes (insert_templates e k ts s) = indexes s"
  by (induction ts arbitrary: k s) (auto split: option.splits)

lemma length_filter_enumerate:
  "length (filter p (map snd (filter q (enumerate k ts)))) \<le> length ts"
proof -
  have "length (filter p (map snd (filter q (enumerate k ts)))) \<le> length (filter q (enumerate k ts))"
    by (metis length_filter_le length_map)
  also have "\<dots> \<le> length (enumerate k ts)" by (rule length_filter_le)
  finally show ?thesis by simp
qed

lemma length_builtin_templates: "length builtin_templates = 5"
  by (simp add: builtin_templates_def)

lemma initialize_templates_skips:
  "0 < length (filter td_is_builtin (templates s)) \<Longrightarrow>
   templates (snd (initialize_templates e s)) = templates s \<and>
   documents (snd (initialize_templates e s)) = documents s \<and>
   chat_messages (snd (initialize_templates e s)) = chat_messages s \<and>
   indexes (snd (initialize_templates e s)) = indexes s"
  by (simp add: initialize_templates_def Let_def split: option.splits)

lemma initialize_templates_at_most_five:
  "length (filter td_is_builtin (templates s)) \<le> 5 \<Longrightarrow>
   length (filter td_is_builtin (templates (snd (initialize_templates e s)))) \<le> 5"
proof (cases "store_raises e 0")
  case (Some msg)
  assume "length (filter td_is_builtin (templates s)) \<le> 5"
  with Some show ?thesis by (simp add: initialize_templates_def)
next
  case None
  assume le: "length (filter td_is_builtin (templates s)) \<le> 5"
  show ?thesis
  proof (cases "0 < length (filter td_is_builtin (templates s))")
    case True
    with le initialize_templates_skips[OF True, of e] show ?thesis by simp
  next
    case False
    then have none: "filter td_is_builtin (templates s) = []" by simp
    have "length (filter td_is_builtin (templates (insert_templates e 1 builtin_templates s))) \<le> 5"
      using length_filter_enumerate[of td_is_builtin "\<lambda>(j, t). store_raises e j = None" 1 builtin_templates]
      by (simp add: insert_templates_templates none length_builtin_templates)
    with None none show ?thesis by (simp add: initialize_templates_def)
  qed
qed

lemma seeding_runs_at_most_five:
  "length (filter td_is_builtin (templates s)) \<le> 5 \<Longrightarrow>
   length (filter td_is_builtin (templates (fold (\<lambda>e s. snd (initialize_templates e s)) es s))) \<le> 5"
  by (induction es arbitrary: s) (simp_all add: initialize_templates_at_most_five)

text \<open>
  C3. When a template flagged builtin exists already, \<^verbatim>\<open>initialize_templates\<close> leaves
  the four collections as they are: it inserts nothing and changes no template, whatever
  the store does. So from a store with no templates, any number of runs of the seeder, in
  environments where any of its round trips may raise, leaves at most five templates
  flagged builtin.
\<close>

theorem seeding_idempotent:
  "(0 < length (filter td_is_builtin (templates s)) \<longrightarrow>
      templates (snd (initialize_templates e s)) = templates s \<and>
      documents (snd (initialize_templates e s)) = documents s \<and>
      chat_messages (snd (initialize_templates e s)) = chat_messages s \<and>
      indexes (snd (initialize_templates e s)) = indexes s) \<and>
   (templates s = [] \<longrightarrow>
      length (filter td_is_builtin (templates (fold (\<lambda>e s. snd (initialize_templates e s)) es s))) \<le> 5)"
  using initialize_templates_skips[of s e] seeding_runs_at_most_five[of s es] by simp

theorem seeding_idempotent_witness:
  "0 < length (filter td_is_builtin (templates letter_stored)) \<and>
   templates (snd (initialize_templates calm letter_stored)) = templates letter_stored \<and>
   templates empty_state = [] \<and>
   map td_id (templates (fold (\<lambda>e s. snd (initialize_templates e s))
      [fails_second_insert, calm, calm] empty_state)) =
     [''template_article'', ''template_presentation'', ''template_math'', ''template_letter''] \<and>
   length (filter td_is_builtin (templates (fold (\<lambda>e s. snd (initialize_templates e s))
      [fails_second_insert, calm, calm] empty_state))) \<le> 5"
proof -
  have b: "0 < length (filter td_is_builtin (templates letter_stored))"
    by (simp add: letter_stored_def builtin_templates_def)
  have u: "templates (snd (initialize_templates calm letter_stored)) = templates letter_stored"
    using seeding_idempotent[of letter_stored calm "[]"] b by blast
  have e: "templates empty_state = []" by (simp add: empty_state_def)
  have "length (filter td_is_builtin (templates (fold (\<lambda>e s. snd (initialize_templates e s))
      [fails_second_insert, calm, calm] empty_state))) \<le> 5"
    using seeding_idempotent[of empty_state calm "[fails_second_insert, calm, calm]"] e by blast
  moreover have "map td_id (templates (fold (\<lambda>e s. snd (initialize_templates e s))
      [fails_second_insert, calm, calm] empty_state)) =
     [''template_article'', ''template_presentation'', ''template_math'', ''template_letter'']"
    by (simp add: initialize_templates_def fails_second_insert_def calm_def empty_state_def
        builtin_templates_def log_to_def)
  ultimately show ?thesis using b u e by simp
qed

text \<open>
  C6. The list of built-in templates has five entries, of the categories academic,
  business, presentation, academic and business in this order, all flagged builtin. When
  the count succeeds and finds no template flagged builtin, the seeder returns normally,
  and each of the five templates is attempted in order whatever happened to the ones
  before it: the collection gains exactly the templates whose own insert did not raise,
  and the log has one entry per template, the insertion or its failure, before the final
  entry.
\<close>

theorem seeding_inserts_five:
  "length builtin_templates = 5 \<and>
   map td_category builtin_templates = [''academic'', ''business'', ''presentation'', ''academic'', ''business''] \<and>
   list_all td_is_builtin builtin_templates \<and>
   (store_raises e 0 = None \<and> filter td_is_builtin (templates s) = [] \<longrightarrow>
      fst (initialize_templates e s) = Inr () \<and>
      templates (snd (initialize_templates e s)) =
        templates s @ map snd (filter (\<lambda>(k, t). store_raises e k = None) (enumerate 1 builtin_templates)) \<and>
      logged (snd (initialize_templates e s)) =
        logged s @
        map (\<lambda>(k, t). case store_raises e k of
                None \<Rightarrow> (INFO, ''Inserted template: '' @ td_name t)
              | Some msg \<Rightarrow> (ERROR, ''Failed to insert template '' @ td_name t @ '': '' @ msg))
          (enumerate 1 builtin_templates) @
        [(INFO, ''Built-in templates initialization completed'')])"
proof (intro conjI impI)
  show "length builtin_templates = 5" by (rule length_builtin_templates)
next
  show "map td_category builtin_templates = [''academic'', ''business'', ''presentation'', ''academic'', ''business'']"
    by (simp add: builtin_templates_def)
next
  show "list_all td_is_builtin builtin_templates" by (simp add: builtin_templates_def)
next
  assume h: "store_raises e 0 = None \<and> filter td_is_builtin (templates s) = []"
  then have run: "initialize_templates e s =
      (Inr (), log_to INFO ''Built-in templates initialization completed'' (insert_templates e 1 builtin_templates s))"
    by (simp add: initialize_templates_def)
  show "fst (initialize_templates e s) = Inr ()" by (simp add: run)
  show "templates (snd (initialize_templates e s)) =
        templates s @ map snd (filter (\<lambda>(k, t). store_raises e k = None) (enumerate 1 builtin_templates))"
    by (simp add: run insert_templates_templates)
  show "logged (snd (initialize_templates e s)) =
        logged s @
        map (\<lambda>(k, t). case store_raises e k of
                None \<Rightarrow> (INFO, ''Inserted template: '' @ td_name t)
              | Some msg \<Rightarrow> (ERROR, ''Failed to insert template '' @ td_name t @ '': '' @ msg))
          (enumerate 1 builtin_templates) @
        [(INFO, ''Built-in templates initialization completed'')]"
    by (simp add: run insert_templates_logged)
qed

theorem seeding_inserts_five_witness:
  "store_raises fails_second_insert 0 = None \<and> filter td_is_builtin (templates empty_state) = [] \<and>
   map td_id (templates (snd (initialize_templates fails_second_insert empty_state))) =
     [''template_article'', ''template_presentation'', ''template_math'', ''template_letter''] \<and>
   logged (snd (initialize_templates fails_second_insert empty_state)) =
     [(INFO, ''Inserted template: Academic Article''),
      (ERROR, ''Failed to insert template Business Report: duplicate key''),
      (INFO, ''Inserted template: Presentation Slides''),
      (INFO, ''Inserted template: Mathematical Document''),
      (INFO, ''Inserted template: Formal Letter''),
      (INFO, ''Built-in templates initialization completed'')]"
proof -
  have h: "store_raises fails_second_insert 0 = None \<and> filter td_is_builtin (templates empty_state) = []"
    by (simp add: fails_second_insert_def empty_state_def)
  have "templates (snd (initialize_templates fails_second_insert empty_state)) =
        templates empty_state @
        map snd (filter (\<lambda>(k, t). store_raises fails_second_insert k = None) (enumerate 1 builtin_templates))"
    and "logged (snd (initialize_templates fails_second_insert empty_state)) =
        logged empty_state @
        map (\<lambda>(k, t). case store_raises fails_second_insert k of
                None \<Rightarrow> (INFO, ''Inserted template: '' @ td_name t)
              | Some msg \<Rightarrow> (ERROR, ''Failed to insert template '' @ td_name t @ '': '' @ msg))
          (enumerate 1 builtin_templates) @
        [(INFO, ''Built-in templates initialization completed'')]"
    using seeding_inserts_five[of fails_second_insert empty_state] h by blast+
  then show ?thesis using h
    by (simp add: fails_second_insert_def empty_state_def builtin_templates_def)
qed

section \<open>Properties of the document endpoints\<close>

lemma d_id_bson_document [simp]: "d_id (bson_document d) = d_id d"
  and d_is_public_bson_document [simp]: "d_is_public (bson_document d) = d_is_public d"
  and d_metadata_bson_document [simp]: "d_metadata (bson_document d) = d_metadata d"
  by (simp_all add: bson_document_def)

lemma create_document_ok:
  "store_raises e 0 = None \<Longrightarrow> \<not> duplicate_key s (uuid4 e) \<Longrightarrow>
   create_document e document s =
     (Inr (DocumentModel_of e document),
      s\<lparr>documents := documents s @ [bson_document (DocumentModel_of e document)]\<rparr>)"
  by (simp add: create_document_def Let_def DocumentModel_of_def)

lemma create_document_Inr:
  "fst (create_document e document s) = Inr d \<Longrightarrow>
   d = DocumentModel_of e document \<and> \<not> duplicate_key s (uuid4 e)"
  by (simp add: create_document_def Let_def DocumentModel_of_def split: option.splits if_splits)

lemma create_document_keeps_distinct:
  assumes "Index ''documents'' ''id'' True \<in> set (indexes s)"
    and "distinct (map d_id (documents s))"
  shows "distinct (map d_id (documents (snd (create_document e document s))))"
proof (cases "store_raises e 0")
  case (Some msg)
  then show ?thesis using assms(2) by (simp add: create_document_def Let_def)
next
  case None
  show ?thesis
  proof (cases "duplicate_key s (uuid4 e)")
    case True
    with None assms(2) show ?thesis by (simp add: create_document_def Let_def DocumentModel_of_def)
  next
    case False
    then have "uuid4 e \<notin> set (map d_id (documents s))"
      using assms(1) by (simp add: duplicate_key_def)
    then show ?thesis
      using create_document_ok[OF None False, of document] assms(2)
      by (simp add: DocumentModel_of_def)
  qed
qed

text \<open>
  C5, as the code has it. When the insert does not raise and the store does not refuse the
  id, \<^verbatim>\<open>POST /api/documents\<close> with only a title returns a document with that title,
  the empty content, no tags and no template, whose id is the value \<^verbatim>\<open>uuid4\<close> drew;
  the record appended to the collection is the record returned with its two timestamps
  cut to the millisecond. Where the unique index on the id of the documents exists, the
  id of a document the route returns is the id of no stored document, and ids that are
  pairwise distinct stay so.
\<close>

theorem create_document_title_only:
  "(store_raises e 0 = None \<and> \<not> duplicate_key s (uuid4 e) \<longrightarrow>
      (\<exists>d. create_document e (DocumentCreate_of title None None None) s =
             (Inr d, s\<lparr>documents := documents s @
                [d\<lparr>d_created_at := to_millis (d_created_at d),
                   d_updated_at := to_millis (d_updated_at d)\<rparr>]\<rparr>) \<and>
           d_title d = title \<and> d_content d = [] \<and> d_tags d = [] \<and> d_template_id d = None \<and>
           d_id d = uuid4 e \<and> d_created_at d = utcnow e 0 \<and> d_updated_at d = utcnow e 1)) \<and>
   (\<forall>document d. Index ''documents'' ''id'' True \<in> set (indexes s) \<and>
        fst (create_document e document s) = Inr d \<longrightarrow> d_id d \<notin> set (map d_id (documents s))) \<and>
   (\<forall>document. Index ''documents'' ''id'' True \<in> set (indexes s) \<and> distinct (map d_id (documents s)) \<longrightarrow>
        distinct (map d_id (documents (snd (create_document e document s)))))"
proof (intro conjI impI allI)
  assume h: "store_raises e 0 = None \<and> \<not> duplicate_key s (uuid4 e)"
  let ?d = "DocumentModel_of e (DocumentCreate_of title None None None)"
  have "create_document e (DocumentCreate_of title None None None) s =
      (Inr ?d, s\<lparr>documents := documents s @ [bson_document ?d]\<rparr>)"
    using h by (simp add: create_document_ok)
  then have "create_document e (DocumentCreate_of title None None None) s =
      (Inr ?d, s\<lparr>documents := documents s @
         [?d\<lparr>d_created_at := to_millis (d_created_at ?d), d_updated_at := to_millis (d_updated_at ?d)\<rparr>]\<rparr>)"
    by (simp add: bson_document_def)
  moreover have "d_title ?d = title \<and> d_content ?d = [] \<and> d_tags ?d = [] \<and> d_template_id ?d = None \<and>
      d_id ?d = uuid4 e \<and> d_created_at ?d = utcnow e 0 \<and> d_updated_at ?d = utcnow e 1"
    by (simp add: DocumentModel_of_def DocumentCreate_of_def)
  ultimately show "\<exists>d. create_document e (DocumentCreate_of title None None None) s =
             (Inr d, s\<lparr>documents := documents s @
                [d\<lparr>d_created_at := to_millis (d_created_at d),
                   d_updated_at := to_millis (d_updated_at d)\<rparr>]\<rparr>) \<and>
           d_title d = title \<and> d_content d = [] \<and> d_tags d = [] \<and> d_template_id d = None \<and>
           d_id d = uuid4 e \<and> d_created_at d = utcnow e 0 \<and> d_updated_at d = utcnow e 1"
    by blast
next
  fix document d
  assume h: "Index ''documents'' ''id'' True \<in> set (indexes s) \<and> fst (create_document e document s) = Inr d"
  then have "d = DocumentModel_of e document" and "\<not> duplicate_key s (uuid4 e)"
    using create_document_Inr[of e document s d] by simp_all
  then show "d_id d \<notin> set (map d_id (documents s))"
    using h by (simp add: duplicate_key_def DocumentModel_of_def)
next
  fix document
  assume "Index ''documents'' ''id'' True \<in> set (indexes s) \<and> distinct (map d_id (documents s))"
  then show "distinct (map d_id (documents (snd (create_document e document s))))"
    using create_document_keeps_distinct[of s e document] by simp
qed

theorem create_document_title_only_witness:
  "store_raises calm 0 = None \<and> \<not> duplicate_key indexed (uuid4 calm) \<and>
   Index ''documents'' ''id'' True \<in> set (indexes indexed) \<and> distinct (map d_id (documents indexed)) \<and>
   (\<exists>d. create_document calm (DocumentCreate_of ''Notes'' None None None) indexed =
          (Inr d, indexed\<lparr>documents :=
             [d\<lparr>d_created_at := 1700000000123000, d_updated_at := 1700000000123000\<rparr>]\<rparr>) \<and>
        d_title d = ''Notes'' \<and> d_content d = [] \<and> d_tags d = [] \<and>
        d_created_at d = 1700000000123456 \<and> d_updated_at d = 1700000000123706 \<and>
        d_id d = ''0b9c3a52-7d1e-4f60-8a2b-5c6d7e8f9a10'' \<and>
        d_id d \<notin> set (map d_id (documents indexed))) \<and>
   distinct (map d_id (documents (snd (create_document calm (DocumentCreate_of ''Notes'' None None None) indexed))))"
proof -
  have ok: "store_raises calm 0 = None \<and> \<not> duplicate_key indexed (uuid4 calm)"
    by (simp add: calm_def duplicate_key_def indexed_def)
  have ix: "Index ''documents'' ''id'' True \<in> set (indexes indexed) \<and> distinct (map d_id (documents indexed))"
    by (simp add: indexed_def index_statements_def)
  note t = create_document_title_only[of calm indexed "''Notes''"]
  obtain d where d: "create_document calm (DocumentCreate_of ''Notes'' None None None) indexed =
          (Inr d, indexed\<lparr>documents := documents indexed @
             [d\<lparr>d_created_at := to_millis (d_created_at d), d_updated_at := to_millis (d_updated_at d)\<rparr>]\<rparr>)"
      "d_title d = ''Notes''" "d_content d = []" "d_tags d = []" "d_id d = uuid4 calm"
      "d_created_at d = utcnow calm 0" "d_updated_at d = utcnow calm 1"
    using t ok by blast
  have "fst (create_document calm (DocumentCreate_of ''Notes'' None None None) indexed) = Inr d"
    using d(1) by simp
  then have fresh: "d_id d \<notin> set (map d_id (documents indexed))"
    using t ix by blast
  have dist: "distinct (map d_id (documents (snd (create_document calm
      (DocumentCreate_of ''Notes'' None None None) indexed))))"
    using t ix by blast
  have "documents indexed = []" by (simp add: indexed_def)
  then show ?thesis using d ok ix fresh dist
    by (auto simp add: calm_def to_millis_def)
qed

text \<open>
  C5 as stated fails. The record the store keeps is not the record returned: the clock
  read 123706 microseconds past the second for \<^verbatim>\<open>updated_at\<close>, and the store keeps
  123000. And the code checks no id: in a store without the unique index, a second call
  for which \<^verbatim>\<open>uuid4\<close> returns the same value stores a second document under the id
  of the first.
\<close>

theorem create_document_stored_differs:
  "map_sum id d_updated_at (fst (create_document calm (DocumentCreate_of ''Notes'' None None None) empty_state)) =
     Inr 1700000000123706 \<and>
   map d_updated_at (documents (snd (create_document calm (DocumentCreate_of ''Notes'' None None None) empty_state))) =
     [1700000000123000] \<and>
   map d_id (documents (snd (create_document calm (DocumentCreate_of ''More notes'' None None None)
      (snd (create_document calm (DocumentCreate_of ''Notes'' None None None) empty_state))))) =
     [''0b9c3a52-7d1e-4f60-8a2b-5c6d7e8f9a10'', ''0b9c3a52-7d1e-4f60-8a2b-5c6d7e8f9a10'']"
  by (simp add: create_document_def DocumentModel_of_def DocumentCreate_of_def bson_document_def
      to_millis_def duplicate_key_def calm_def empty_state_def)

subsection \<open>update_document and delete_document\<close>

lemma datetime_unbound: "''datetime'' \<notin> set server_globals"
  by (simp add: server_globals_def)

lemma update_document_name_error:
  "update_document e document_id update_data s =
     (Inl (HTTPException 500 ''Failed to update document''),
      log_to ERROR (''Error updating document '' @ document_id @ '': name 'datetime' is not defined'') s)"
  by (simp add: update_document_def datetime_unbound)

text \<open>
  What lines 353 to 363 do once the clock has been read: they apply the fields of the
  request that are not \<^verbatim>\<open>None\<close> and the new \<^verbatim>\<open>updated_at\<close> to the first document
  with the id, and return that document as re-read; for an id no document has they
  answer 404 and change nothing.
\<close>

lemma find_one_update_one:
  "find_one p xs = Some d \<Longrightarrow> p (f d) \<Longrightarrow> find_one p (update_one p f xs) = Some (f d)"
  unfolding find_one_def by (induction xs) (auto split: if_splits)

lemma d_id_set_fields: "d_id (set_fields u now d) = d_id d"
  by (simp add: set_fields_def)

lemma set_fields_title_only:
  "set_fields \<lparr>du_title = Some v, du_content = None, du_tags = None, du_metadata = None\<rparr> now d =
     d\<lparr>d_title := v, d_updated_at := now\<rparr>"
  by (simp add: set_fields_def)

lemma update_document_store_found:
  assumes "bson_ok_dict (case du_metadata update_data of None \<Rightarrow> [] | Some m \<Rightarrow> m)"
    and "store_raises e 0 = None" "store_raises e 1 = None"
    and "find_one (\<lambda>d. d_id d = document_id) (documents s) = Some d"
  shows "update_document_store e document_id update_data now s =
     (Inr (set_fields update_data (to_millis now) d),
      s\<lparr>documents := update_one (\<lambda>d. d_id d = document_id)
           (set_fields update_data (to_millis now)) (documents s)\<rparr>)"
proof -
  have "d_id d = document_id"
    using assms(4) unfolding find_one_def by (auto simp: find_Some_iff)
  then have "find_one (\<lambda>d. d_id d = document_id)
      (update_one (\<lambda>d. d_id d = document_id) (set_fields update_data (to_millis now)) (documents s)) =
      Some (set_fields update_data (to_millis now) d)"
    using find_one_update_one[OF assms(4), of "set_fields update_data (to_millis now)"]
    by (simp add: d_id_set_fields)
  then show ?thesis using assms by (simp add: update_document_store_def)
qed

lemma update_document_store_missing:
  "bson_ok_dict (case du_metadata update_data of None \<Rightarrow> [] | Some m \<Rightarrow> m) \<Longrightarrow>
   store_raises e 0 = None \<Longrightarrow> find_one (\<lambda>d. d_id d = document_id) (documents s) = None \<Longrightarrow>
   update_document_store e document_id update_data now s = (Inl (HTTPException 404 ''Document not found''), s)"
  by (simp add: update_document_store_def)

lemma delete_document_missing:
  "store_raises e 0 = None \<Longrightarrow> find_one (\<lambda>d. d_id d = document_id) (documents s) = None \<Longrightarrow>
   delete_document e document_id s = (Inl (HTTPException 404 ''Document not found''), s)"
  by (simp add: delete_document_def)

lemma update_document_store_title_New:
  "update_document_store calm ''doc-1'' title_New (utcnow calm 0) one_document =
     (Inr (stored_document\<lparr>d_title := ''New'', d_updated_at := 1700000000123000\<rparr>),
      one_document\<lparr>documents := [stored_document\<lparr>d_title := ''New'', d_updated_at := 1700000000123000\<rparr>]\<rparr>)"
proof -
  have f: "find_one (\<lambda>d. d_id d = ''doc-1'') (documents one_document) = Some stored_document"
    by (simp add: find_one_def one_document_def stored_document_def)
  have i: "d_id stored_document = ''doc-1''" by (simp add: stored_document_def)
  have "update_document_store calm ''doc-1'' title_New (utcnow calm 0) one_document =
     (Inr (set_fields title_New (to_millis (utcnow calm 0)) stored_document),
      one_document\<lparr>documents := update_one (\<lambda>d. d_id d = ''doc-1'')
         (set_fields title_New (to_millis (utcnow calm 0))) (documents one_document)\<rparr>)"
    by (rule update_document_store_found[OF _ _ _ f]) (simp_all add: calm_def title_New_def)
  moreover have "set_fields title_New (to_millis (utcnow calm 0)) stored_document =
      stored_document\<lparr>d_title := ''New'', d_updated_at := 1700000000123000\<rparr>"
    by (simp add: title_New_def set_fields_title_only calm_def to_millis_def)
  ultimately show ?thesis using i by (simp add: one_document_def)
qed

text \<open>
  C1, at a store that holds the document \<^verbatim>\<open>doc-1\<close>, for the request
  \<^verbatim>\<open>{"title": "New"}\<close> and a store that never raises. The claim says the answer is
  200 with the updated record. The module does not bind \<^verbatim>\<open>datetime\<close>, so
  \<^verbatim>\<open>update_document\<close> answers 500, logs the \<^verbatim>\<open>NameError\<close> and leaves the
  document as it was.
\<close>

theorem update_document_existing_id:
  "find_one (\<lambda>d. d_id d = ''doc-1'') (documents one_document) = Some stored_document \<and>
   update_document calm ''doc-1'' title_New one_document =
     (Inl (HTTPException 500 ''Failed to update document''),
      log_to ERROR ''Error updating document doc-1: name 'datetime' is not defined'' one_document)"
  by (simp add: update_document_name_error find_one_def one_document_def stored_document_def)

text \<open>
  C2, at a store that holds only \<^verbatim>\<open>doc-1\<close>, for the id \<^verbatim>\<open>doc-2\<close> and a store
  that never raises. \<^verbatim>\<open>DELETE\<close> answers 404 and leaves the state as it was, as the
  claim says. \<^verbatim>\<open>PUT\<close> answers 500, not 404: the \<^verbatim>\<open>NameError\<close> of line 351
  comes before the store is asked; the collections are unchanged.
\<close>

theorem update_document_missing_id:
  "find_one (\<lambda>d. d_id d = ''doc-2'') (documents one_document) = None \<and>
   delete_document calm ''doc-2'' one_document = (Inl (HTTPException 404 ''Document not found''), one_document) \<and>
   update_document calm ''doc-2'' title_New one_document =
     (Inl (HTTPException 500 ''Failed to update document''),
      log_to ERROR ''Error updating document doc-2: name 'datetime' is not defined'' one_document)"
  by (simp add: update_document_name_error delete_document_def calm_def find_one_def one_document_def
      stored_document_def)

subsection \<open>The public flag\<close>

lemma set_update_one: "set (update_one p f xs) \<subseteq> set xs \<union> f ` set xs"
  by (induction xs) auto

lemma set_delete_one: "set (delete_one p xs) \<subseteq> set xs"
  by (induction xs) auto

lemma d_is_public_set_fields: "d_is_public (set_fields u now d) = d_is_public d"
  by (simp add: set_fields_def)

lemma documents_create_document:
  "set (documents (snd (create_document e document s))) \<subseteq>
     insert (bson_document (DocumentModel_of e document)) (set (documents s))"
  by (auto simp add: create_document_def Let_def split: option.splits)

lemma documents_get_documents: "documents (snd (get_documents e skip limit s)) = documents s"
  by (simp add: get_documents_def split: option.splits)

lemma documents_get_document: "documents (snd (get_document e document_id s)) = documents s"
  by (simp add: get_document_def split: option.splits)

lemma documents_update_document:
  "documents (snd (update_document e document_id update_data s)) = documents s"
  by (simp add: update_document_name_error)

lemma documents_update_document_store:
  "set (documents (snd (update_document_store e document_id update_data now s))) \<subseteq>
     set (documents s) \<union> set_fields update_data (to_millis now) ` set (documents s)"
  using set_update_one[of "\<lambda>d. d_id d = document_id" "set_fields update_data (to_millis now)" "documents s"]
  by (auto simp add: update_document_store_def Let_def split: option.splits)

lemma documents_delete_document:
  "set (documents (snd (delete_document e document_id s))) \<subseteq> set (documents s)"
  using set_delete_one[of "\<lambda>d. d_id d = document_id" "documents s"]
  by (auto simp add: delete_document_def split: option.splits)

lemma documents_get_templates: "documents (snd (get_templates e category s)) = documents s"
  by (simp add: get_templates_def Let_def split: option.splits)

lemma documents_get_template: "documents (snd (get_template e template_id s)) = documents s"
  by (simp add: get_template_def split: option.splits)

lemma documents_chat_with_ai: "documents (snd (chat_with_ai e chat_request s)) = documents s"
  by (simp add: chat_with_ai_def Let_def split: option.splits)

lemma serve_documents:
  "set (documents (serve e rq s)) \<subseteq>
     set (documents s) \<union>
     {d. \<exists>document. rq = POST_documents document \<and> d = bson_document (DocumentModel_of e document)}"
proof (cases rq)
  case (POST_documents document)
  then show ?thesis using documents_create_document[of e document s] by auto
next
  case (DELETE_document document_id)
  then show ?thesis using documents_delete_document[of e document_id s] by auto
qed (simp_all add: documents_get_documents documents_get_document documents_update_document
      documents_get_templates documents_get_template documents_chat_with_ai)

lemma serve_keeps_private:
  assumes "\<forall>d\<in>set (documents s). \<not> d_is_public d"
  shows "\<forall>d\<in>set (documents (serve e rq s)). \<not> d_is_public d"
proof
  fix d assume "d \<in> set (documents (serve e rq s))"
  then have "d \<in> set (documents s) \<or> (\<exists>document. d = bson_document (DocumentModel_of e document))"
    using serve_documents[of e rq s] by auto
  then show "\<not> d_is_public d" using assms by (auto simp add: DocumentModel_of_def)
qed

text \<open>The lines of \<^verbatim>\<open>update_document\<close> after the clock is read keep the flag as well.\<close>

lemma update_document_store_keeps_private:
  assumes "\<forall>d\<in>set (documents s). \<not> d_is_public d"
  shows "\<forall>d\<in>set (documents (snd (update_document_store e document_id update_data now s))). \<not> d_is_public d"
  using documents_update_document_store[of e document_id update_data now s] assms
  by (auto simp add: d_is_public_set_fields)

lemma serve_all_keeps_private:
  "\<forall>d\<in>set (documents s). \<not> d_is_public d \<Longrightarrow>
   \<forall>d\<in>set (documents (fold (\<lambda>(e, rq). serve e rq) calls s)). \<not> d_is_public d"
proof (induction calls arbitrary: s)
  case Nil
  then show ?case by simp
next
  case (Cons call calls)
  obtain e rq where call: "call = (e, rq)" by (cases call)
  have "\<forall>d\<in>set (documents (serve e rq s)). \<not> d_is_public d"
    by (rule serve_keeps_private[OF Cons.prems])
  then show ?case using Cons.IH[of "serve e rq s"] call by simp
qed

text \<open>
  C10. A document that \<^verbatim>\<open>POST /api/documents\<close> returns is not public and has the
  empty metadata, and so has the record the store keeps of it; the route does return one
  when the insert does not raise and the store does not refuse the id. No request of the
  application sets the flag: when no stored document is public, none is after any
  sequence of requests to any of the ten routes, in any environments.
\<close>

theorem is_public_never_set:
  "(\<forall>d. fst (create_document e document s) = Inr d \<longrightarrow> \<not> d_is_public d \<and> d_metadata d = []) \<and>
   (store_raises e 0 = None \<and> \<not> duplicate_key s (uuid4 e) \<longrightarrow>
      (\<exists>d. create_document e document s = (Inr d, s\<lparr>documents := documents s @ [bson_document d]\<rparr>) \<and>
           \<not> d_is_public d \<and> d_metadata d = [] \<and>
           \<not> d_is_public (bson_document d) \<and> d_metadata (bson_document d) = [])) \<and>
   ((\<forall>d\<in>set (documents s). \<not> d_is_public d) \<longrightarrow>
      (\<forall>d\<in>set (documents (fold (\<lambda>(e, rq). serve e rq) calls s)). \<not> d_is_public d))"
proof (intro conjI impI allI)
  fix d assume "fst (create_document e document s) = Inr d"
  then have "d = DocumentModel_of e document" using create_document_Inr[of e document s d] by simp
  then show "\<not> d_is_public d" and "d_metadata d = []" by (simp_all add: DocumentModel_of_def)
next
  assume ok: "store_raises e 0 = None \<and> \<not> duplicate_key s (uuid4 e)"
  have "\<not> d_is_public (DocumentModel_of e document) \<and> d_metadata (DocumentModel_of e document) = []"
    by (simp add: DocumentModel_of_def)
  moreover have "create_document e document s =
      (Inr (DocumentModel_of e document),
       s\<lparr>documents := documents s @ [bson_document (DocumentModel_of e document)]\<rparr>)"
    using ok by (simp add: create_document_ok)
  ultimately
  show "\<exists>d. create_document e document s = (Inr d, s\<lparr>documents := documents s @ [bson_document d]\<rparr>) \<and>
           \<not> d_is_public d \<and> d_metadata d = [] \<and>
           \<not> d_is_public (bson_document d) \<and> d_metadata (bson_document d) = []"
    by (metis d_is_public_bson_document d_metadata_bson_document)
next
  assume "\<forall>d\<in>set (documents s). \<not> d_is_public d"
  then show "\<forall>d\<in>set (documents (fold (\<lambda>(e, rq). serve e rq) calls s)). \<not> d_is_public d"
    by (rule serve_all_keeps_private)
qed

theorem is_public_never_set_witness:
  "store_raises calm 0 = None \<and> \<not> duplicate_key one_document (uuid4 calm) \<and>
   (\<exists>d. fst (create_document calm (DocumentCreate_of ''Notes'' None None None) one_document) = Inr d \<and>
        \<not> d_is_public d \<and> d_metadata d = []) \<and>
   list_all (\<lambda>d. \<not> d_is_public d) (documents one_document) \<and>
   length (documents (fold (\<lambda>(e, rq). serve e rq)
      [(calm, POST_documents (DocumentCreate_of ''Notes'' None None None)),
       (calm, PUT_document ''doc-1'' make_public),
       (calm, DELETE_document ''doc-2'')] one_document)) = 2 \<and>
   list_all (\<lambda>d. \<not> d_is_public d) (documents (fold (\<lambda>(e, rq). serve e rq)
      [(calm, POST_documents (DocumentCreate_of ''Notes'' None None None)),
       (calm, PUT_document ''doc-1'' make_public),
       (calm, DELETE_document ''doc-2'')] one_document))"
proof -
  have ok: "store_raises calm 0 = None" by (simp add: calm_def)
  have nd: "\<not> duplicate_key one_document (uuid4 calm)"
    by (simp add: duplicate_key_def one_document_def)
  have p: "\<forall>d\<in>set (documents one_document). \<not> d_is_public d"
    by (simp add: one_document_def stored_document_def)
  let ?calls = "[(calm, POST_documents (DocumentCreate_of ''Notes'' None None None)),
       (calm, PUT_document ''doc-1'' make_public),
       (calm, DELETE_document ''doc-2'')]"
  note t = is_public_never_set[of calm "DocumentCreate_of ''Notes'' None None None" one_document ?calls]
  have a: "\<forall>d\<in>set (documents (fold (\<lambda>(e, rq). serve e rq) ?calls one_document)). \<not> d_is_public d"
    using t p by blast
  have c: "\<exists>d. fst (create_document calm (DocumentCreate_of ''Notes'' None None None) one_document) = Inr d \<and>
        \<not> d_is_public d \<and> d_metadata d = []"
    using t ok nd by fastforce
  have u: "uuid4 calm \<noteq> ''doc-2''" by (simp add: calm_def)
  let ?s1 = "snd (create_document calm (DocumentCreate_of ''Notes'' None None None) one_document)"
  let ?s2 = "snd (update_document calm ''doc-1'' make_public ?s1)"
  let ?s3 = "snd (delete_document calm ''doc-2'' ?s2)"
  have d1: "documents ?s1 =
      [stored_document, bson_document (DocumentModel_of calm (DocumentCreate_of ''Notes'' None None None))]"
    using create_document_ok[OF ok nd, of "DocumentCreate_of ''Notes'' None None None"]
    by (simp add: one_document_def)
  have d2: "documents ?s2 = documents ?s1"
    by (rule documents_update_document)
  have "find_one (\<lambda>d. d_id d = ''doc-2'') (documents ?s2) = None"
    using u by (simp add: d2 d1 find_one_def stored_document_def DocumentModel_of_def)
  then have d3: "documents ?s3 = documents ?s2"
    using ok by (simp add: delete_document_def)
  have l: "length (documents (fold (\<lambda>(e, rq). serve e rq) ?calls one_document)) = 2"
    using d1 d2 d3 by simp
  show ?thesis using ok nd p a c l by (simp add: list_all_iff)
qed

section \<open>Properties of the template endpoints\<close>

lemma map_name_models:
  "map t_name (map (\<lambda>(k, template). TemplateModel_of (f k) template) (enumerate n xs)) = map td_name xs"
  by (induction xs arbitrary: n) (simp_all add: TemplateModel_of_def)

lemma get_templates_found:
  "store_raises e 0 = None \<Longrightarrow>
   get_templates e category s =
     (Inr (map (\<lambda>(k, template). TemplateModel_of (utcnow e k) template)
        (enumerate 0 (sort_key td_name (find_templates (template_query category) (templates s))))), s)"
  by (simp add: get_templates_def)

text \<open>
  C7, for a category that is not the empty string. When the query does not raise,
  \<^verbatim>\<open>GET /api/templates?category=c\<close> returns the models of exactly the stored templates
  whose category is \<open>c\<close>, each as often as it is stored, in ascending order of their
  names and all of them (no page is cut); with no category it returns the models of all
  stored templates in ascending order of their names. The state is unchanged.
\<close>

theorem get_templates_by_category:
  "store_raises e 0 = None \<Longrightarrow>
   (c \<noteq> [] \<longrightarrow>
     (\<exists>found ms. get_templates e (Some c) s = (Inr ms, s) \<and>
        mset found = mset (filter (\<lambda>t. td_category t = c) (templates s)) \<and>
        ms = map (\<lambda>(k, template). TemplateModel_of (utcnow e k) template) (enumerate 0 found) \<and>
        sorted (map t_name ms) \<and>
        length ms = length (filter (\<lambda>t. td_category t = c) (templates s)))) \<and>
   (\<exists>found ms. get_templates e None s = (Inr ms, s) \<and>
        mset found = mset (templates s) \<and>
        ms = map (\<lambda>(k, template). TemplateModel_of (utcnow e k) template) (enumerate 0 found) \<and>
        sorted (map t_name ms) \<and>
        length ms = length (templates s))"
proof (intro conjI impI)
  assume ok: "store_raises e 0 = None" and c: "c \<noteq> []"
  let ?found = "sort_key td_name (filter (\<lambda>t. td_category t = c) (templates s))"
  let ?ms = "map (\<lambda>(k, template). TemplateModel_of (utcnow e k) template) (enumerate 0 ?found)"
  have "get_templates e (Some c) s = (Inr ?ms, s)"
    using get_templates_found[OF ok, of "Some c" s] c by (simp add: template_query_def find_templates_def)
  moreover have "mset ?found = mset (filter (\<lambda>t. td_category t = c) (templates s))" by simp
  moreover have "sorted (map t_name ?ms)" by (simp only: map_name_models sorted_sort_key)
  moreover have "length ?ms = length (filter (\<lambda>t. td_category t = c) (templates s))" by simp
  ultimately show "\<exists>found ms. get_templates e (Some c) s = (Inr ms, s) \<and>
        mset found = mset (filter (\<lambda>t. td_category t = c) (templates s)) \<and>
        ms = map (\<lambda>(k, template). TemplateModel_of (utcnow e k) template) (enumerate 0 found) \<and>
        sorted (map t_name ms) \<and>
        length ms = length (filter (\<lambda>t. td_category t = c) (templates s))"
    by blast
next
  assume ok: "store_raises e 0 = None"
  let ?found = "sort_key td_name (templates s)"
  let ?ms = "map (\<lambda>(k, template). TemplateModel_of (utcnow e k) template) (enumerate 0 ?found)"
  have "get_templates e None s = (Inr ?ms, s)"
    using get_templates_found[OF ok, of None s] by (simp add: template_query_def find_templates_def)
  moreover have "mset ?found = mset (templates s)" by simp
  moreover have "sorted (map t_name ?ms)" by (simp only: map_name_models sorted_sort_key)
  moreover have "length ?ms = length (templates s)" by simp
  ultimately show "\<exists>found ms. get_templates e None s = (Inr ms, s) \<and>
        mset found = mset (templates s) \<and>
        ms = map (\<lambda>(k, template). TemplateModel_of (utcnow e k) template) (enumerate 0 found) \<and>
        sorted (map t_name ms) \<and>
        length ms = length (templates s)"
    by blast
qed

theorem get_templates_by_category_witness:
  "store_raises calm 0 = None \<and> ''business'' \<noteq> [] \<and>
   (\<exists>ms. get_templates calm (Some ''business'') two_templates = (Inr ms, two_templates) \<and>
      length ms = 1 \<and> sorted (map t_name ms))"
proof -
  have ok: "store_raises calm 0 = None" by (simp add: calm_def)
  have n: "length (filter (\<lambda>t. td_category t = ''business'') (templates two_templates)) = 1"
    by (simp add: two_templates_def memo_template_def abstract_template_def)
  show ?thesis using get_templates_by_category[OF ok, of "''business''" two_templates] ok n
    by auto
qed

text \<open>
  C7 as stated fails at the empty string: no stored template has the empty category, yet
  \<^verbatim>\<open>GET /api/templates?category=\<close> returns both stored templates.
\<close>

theorem get_templates_empty_string_returns_all:
  "filter (\<lambda>t. td_category t = '''') (templates two_templates) = [] \<and>
   map_sum (\<lambda>x. x) (map t_name) (fst (get_templates calm (Some '''') two_templates)) =
     Inr [''Abstract'', ''Memo'']"
  by (simp add: get_templates_def template_query_def find_templates_def two_templates_def calm_def
      memo_template_def abstract_template_def TemplateModel_of_def)

text \<open>
  C9. A category parameter that is the empty string is treated as an absent one: the
  response, the state and the log are those of the request without the parameter.
\<close>

theorem get_templates_empty_category:
  "get_templates e (Some '''') s = get_templates e None s"
  by (simp add: get_templates_def template_query_def split: option.split)

theorem get_templates_empty_category_witness:
  "map_sum (\<lambda>x. x) (map t_name) (fst (get_templates calm None two_templates)) = Inr [''Abstract'', ''Memo'']"
proof -
  have "map_sum (\<lambda>x. x) (map t_name) (fst (get_templates calm (Some '''') two_templates)) =
      Inr [''Abstract'', ''Memo'']"
    by (simp add: get_templates_def template_query_def find_templates_def two_templates_def calm_def
      memo_template_def abstract_template_def TemplateModel_of_def)
  then show ?thesis by (simp only: get_templates_empty_category[of calm two_templates])
qed

section \<open>Properties of the chat endpoint\<close>

lemma str_response_value:
  "str_response response =
     ''{'message': 'AI integration coming soon! This is a placeholder response.', 'suggestions': ['Try adding some mathematical equations with '' @ bs # bs #
     ''begin{equation}', 'Consider using '' @ bs # bs # ''section{} to organize your content', 'Use '' @ bs # bs #
     ''textbf{} for bold text and '' @ bs # bs # ''textit{} for italic text']}''"
  by code_simp

lemma m_context_ChatMessage_of:
  "m_context (ChatMessage_of e chat_request) = (case cr_context chat_request of None \<Rightarrow> [] | Some c \<Rightarrow> c)"
  by (simp add: ChatMessage_of_def split: option.split)

lemma chat_with_ai_insert_fails:
  "bson_ok_dict (case cr_context chat_request of None \<Rightarrow> [] | Some c \<Rightarrow> c) \<Longrightarrow>
   store_raises e 0 = Some msg \<Longrightarrow>
   chat_with_ai e chat_request s =
     (Inl (HTTPException 500 ''Chat service temporarily unavailable''),
      log_to ERROR (''Error in chat: '' @ msg) s)"
  by (simp add: chat_with_ai_def Let_def m_context_ChatMessage_of)

lemma chat_with_ai_refused:
  "\<not> bson_ok_dict (case cr_context chat_request of None \<Rightarrow> [] | Some c \<Rightarrow> c) \<Longrightarrow>
   chat_with_ai e chat_request s =
     (Inl (HTTPException 500 ''Chat service temporarily unavailable''),
      log_to ERROR (''Error in chat: '' @ refusal e) s)"
  by (simp add: chat_with_ai_def Let_def m_context_ChatMessage_of)

text \<open>
  C4, as the code has it. For a request whose context the driver can encode (its integers
  fit eight bytes, no key holds a NUL), when the insert does not raise,
  \<^verbatim>\<open>POST /api/chat\<close> answers with the one response, a fixed message and three fixed
  suggestions, and appends one chat message to the collection: the document id and the
  message of the request, the \<^verbatim>\<open>str\<close> of the response, the timestamp to the
  millisecond, and the context of the request, empty when the request has none. For a
  context the driver cannot encode it answers 500 and appends nothing, whatever the store
  would do.
\<close>

theorem chat_with_ai_fixed:
  "(store_raises e 0 = None \<and> bson_ok_dict (case cr_context chat_request of None \<Rightarrow> [] | Some c \<Rightarrow> c) \<longrightarrow>
     chat_with_ai e chat_request s =
       (Inr response,
        s\<lparr>chat_messages := chat_messages s @
           [\<lparr>m_id = uuid4 e,
             m_document_id = cr_document_id chat_request,
             m_message = cr_message chat_request,
             m_response = str_response response,
             m_timestamp = to_millis (utcnow e 0),
             m_context = (case cr_context chat_request of None \<Rightarrow> [] | Some c \<Rightarrow> c)\<rparr>]\<rparr>)) \<and>
   (\<not> bson_ok_dict (case cr_context chat_request of None \<Rightarrow> [] | Some c \<Rightarrow> c) \<longrightarrow>
     chat_with_ai e chat_request s =
       (Inl (HTTPException 500 ''Chat service temporarily unavailable''),
        log_to ERROR (''Error in chat: '' @ refusal e) s)) \<and>
   message response = ''AI integration coming soon! This is a placeholder response.'' \<and>
   suggestions response =
     [''Try adding some mathematical equations with '' @ bs # ''begin{equation}'',
      ''Consider using '' @ bs # ''section{} to organize your content'',
      ''Use '' @ bs # ''textbf{} for bold text and '' @ bs # ''textit{} for italic text''] \<and>
   str_response response =
     ''{'message': 'AI integration coming soon! This is a placeholder response.', 'suggestions': ['Try adding some mathematical equations with '' @ bs # bs #
     ''begin{equation}', 'Consider using '' @ bs # bs # ''section{} to organize your content', 'Use '' @ bs # bs #
     ''textbf{} for bold text and '' @ bs # bs # ''textit{} for italic text']}''"
proof (intro conjI impI)
  assume ok: "store_raises e 0 = None \<and> bson_ok_dict (case cr_context chat_request of None \<Rightarrow> [] | Some c \<Rightarrow> c)"
  have "bson_chat_message (ChatMessage_of e chat_request) =
      \<lparr>m_id = uuid4 e,
       m_document_id = cr_document_id chat_request,
       m_message = cr_message chat_request,
       m_response = str_response response,
       m_timestamp = to_millis (utcnow e 0),
       m_context = (case cr_context chat_request of None \<Rightarrow> [] | Some c \<Rightarrow> c)\<rparr>"
    by (simp add: bson_chat_message_def ChatMessage_of_def split: option.split)
  then show "chat_with_ai e chat_request s =
     (Inr response,
      s\<lparr>chat_messages := chat_messages s @
         [\<lparr>m_id = uuid4 e,
           m_document_id = cr_document_id chat_request,
           m_message = cr_message chat_request,
           m_response = str_response response,
           m_timestamp = to_millis (utcnow e 0),
           m_context = (case cr_context chat_request of None \<Rightarrow> [] | Some c \<Rightarrow> c)\<rparr>]\<rparr>)"
    using ok by (simp add: chat_with_ai_def Let_def m_context_ChatMessage_of)
next
  assume "\<not> bson_ok_dict (case cr_context chat_request of None \<Rightarrow> [] | Some c \<Rightarrow> c)"
  then show "chat_with_ai e chat_request s =
       (Inl (HTTPException 500 ''Chat service temporarily unavailable''),
        log_to ERROR (''Error in chat: '' @ refusal e) s)"
    by (rule chat_with_ai_refused)
next
  show "message response = ''AI integration coming soon! This is a placeholder response.''"
    by (simp add: response_def)
next
  show "suggestions response =
     [''Try adding some mathematical equations with '' @ bs # ''begin{equation}'',
      ''Consider using '' @ bs # ''section{} to organize your content'',
      ''Use '' @ bs # ''textbf{} for bold text and '' @ bs # ''textit{} for italic text'']"
    by (simp add: response_def)
next
  show "str_response response =
     ''{'message': 'AI integration coming soon! This is a placeholder response.', 'suggestions': ['Try adding some mathematical equations with '' @ bs # bs #
     ''begin{equation}', 'Consider using '' @ bs # bs # ''section{} to organize your content', 'Use '' @ bs # bs #
     ''textbf{} for bold text and '' @ bs # bs # ''textit{} for italic text']}''"
    by (rule str_response_value)
qed

theorem chat_with_ai_fixed_witness:
  "store_raises calm 0 = None \<and>
   bson_ok_dict (case cr_context hello of None \<Rightarrow> [] | Some c \<Rightarrow> c) \<and>
   fst (chat_with_ai calm hello empty_state) = Inr response \<and>
   map m_message (chat_messages (snd (chat_with_ai calm hello empty_state))) = [''How do I typeset a matrix?''] \<and>
   map m_context (chat_messages (snd (chat_with_ai calm hello empty_state))) = [[]] \<and>
   map m_timestamp (chat_messages (snd (chat_with_ai calm hello empty_state))) = [1700000000123000] \<and>
   \<not> bson_ok_dict (case cr_context large_number of None \<Rightarrow> [] | Some c \<Rightarrow> c) \<and>
   fst (chat_with_ai calm large_number empty_state) =
     Inl (HTTPException 500 ''Chat service temporarily unavailable'') \<and>
   chat_messages (snd (chat_with_ai calm large_number empty_state)) = [] \<and>
   length (suggestions response) = 3"
proof -
  have ok: "store_raises calm 0 = None \<and> bson_ok_dict (case cr_context hello of None \<Rightarrow> [] | Some c \<Rightarrow> c)"
    by (simp add: calm_def hello_def)
  have no: "\<not> bson_ok_dict (case cr_context large_number of None \<Rightarrow> [] | Some c \<Rightarrow> c)"
    by (simp add: large_number_def)
  have t: "to_millis (utcnow calm 0) = 1700000000123000" by (simp add: calm_def to_millis_def)
  show ?thesis
    using chat_with_ai_fixed[of calm hello empty_state] chat_with_ai_fixed[of calm large_number empty_state]
      ok no t
    by (simp add: hello_def empty_state_def log_to_def)
qed

text \<open>
  C4 as stated fails: the store raises nothing, and the request whose context holds the
  integer \<open>2 ^ 64\<close> is answered 500, with no chat message stored.
\<close>

theorem chat_with_ai_refuses_large_number:
  "store_raises calm 0 = None \<and>
   chat_with_ai calm large_number empty_state =
     (Inl (HTTPException 500 ''Chat service temporarily unavailable''),
      log_to ERROR ''Error in chat: refused'' empty_state)"
  by (simp add: chat_with_ai_def ChatMessage_of_def Let_def large_number_def calm_def)

end
